theory Spec2Isabelle
  imports Main
begin

section \<open>Python values used by app.py\<close>

text \<open>
  A value decoded by \<^verbatim>\<open>json.loads\<close>, which is also what the dictionaries built by
  \<^verbatim>\<open>generar_pregunta\<close> hold. \<open>JNull\<close> is Python's \<^verbatim>\<open>None\<close>. A float is kept as its
  literal: no code path of app.py inspects one. A \<^verbatim>\<open>dict\<close> is an association list in
  insertion order, read with \<open>map_of\<close>. A \<open>char\<close> stands for a code point below 256.
\<close>

datatype json =
    JNull
  | JBool bool
  | JInt int
  | JFloat string
  | JStr string
  | JList "json list"
  | JObj "(string \<times> json) list"

type_synonym pydict = "(string \<times> json) list"

text \<open>\<^verbatim>\<open>d.get(k)\<close> and \<^verbatim>\<open>d.get(k, default)\<close>.\<close>

definition dict_get :: "pydict \<Rightarrow> string \<Rightarrow> json" where
  "dict_get d k = (case map_of d k of None \<Rightarrow> JNull | Some v \<Rightarrow> v)"

definition dict_get_default :: "pydict \<Rightarrow> string \<Rightarrow> json \<Rightarrow> json" where
  "dict_get_default d k dflt = (case map_of d k of None \<Rightarrow> dflt | Some v \<Rightarrow> v)"

text \<open>\<^verbatim>\<open>k in d\<close>.\<close>

definition dict_has :: "pydict \<Rightarrow> string \<Rightarrow> bool" where
  "dict_has d k = (map_of d k \<noteq> None)"

text \<open>The exceptions that can arise in the code paths modelled here.\<close>

datatype exn =
    ErrorAPI string
  | AttributeError string string
  | JSONDecodeError string
  | Empty

text \<open>\<^verbatim>\<open>str(e)\<close>.\<close>

fun str_exn :: "exn \<Rightarrow> string" where
  "str_exn (ErrorAPI m) = m"
| "str_exn (AttributeError ty attr) =
     [CHR 0x27] @ ty @ [CHR 0x27] @ '' object has no attribute '' @ [CHR 0x27] @ attr @ [CHR 0x27]"
| "str_exn (JSONDecodeError m) = m"
| "str_exn Empty = []"

text \<open>\<^verbatim>\<open>type(v).__name__\<close> for a decoded JSON value.\<close>

fun type_name :: "json \<Rightarrow> string" where
  "type_name JNull = ''NoneType''"
| "type_name (JBool _) = ''bool''"
| "type_name (JInt _) = ''int''"
| "type_name (JFloat _) = ''float''"
| "type_name (JStr _) = ''str''"
| "type_name (JList _) = ''list''"
| "type_name (JObj _) = ''dict''"

text \<open>
  The three ways a call can end: it returns a value, it raises, or it does not return
  because the calling thread stays blocked.
\<close>

datatype 'a outcome = Returns 'a | Raises exn | Blocks

section \<open>String methods\<close>

text \<open>\<^verbatim>\<open>str.isspace\<close> on a code point below 256.\<close>

definition py_isspace :: "char \<Rightarrow> bool" where
  "py_isspace c = (of_char c \<in> {9, 10, 11, 12, 13, 28, 29, 30, 31, 32, 133, 160 :: nat})"

definition py_strip :: "string \<Rightarrow> string" where
  "py_strip s = rev (dropWhile py_isspace (rev (dropWhile py_isspace s)))"

definition py_startswith :: "string \<Rightarrow> string \<Rightarrow> bool" where
  "py_startswith s p = (take (length p) s = p)"

definition py_endswith :: "string \<Rightarrow> string \<Rightarrow> bool" where
  "py_endswith s p = (length p \<le> length s \<and> drop (length s - length p) s = p)"

text \<open>\<^verbatim>\<open>s.split(c)\<close> for a one-character separator: never the empty list.\<close>

fun py_split :: "char \<Rightarrow> string \<Rightarrow> string list" where
  "py_split c [] = [[]]"
| "py_split c (x # xs) =
     (if x = c then [] # py_split c xs
      else (case py_split c xs of [] \<Rightarrow> [[x]] | w # ws \<Rightarrow> (x # w) # ws))"

section \<open>Configuration and state\<close>

definition CACHE_SIZE :: nat where
  "CACHE_SIZE = 40"

definition CACHE_MIN :: nat where
  "CACHE_MIN = 10"

text \<open>
  The process state the modelled functions touch. \<open>pregunta_cache\<close> is the content of the
  \<^verbatim>\<open>queue.Queue(maxsize=CACHE_SIZE)\<close>, oldest item first. The other two fields are
  instrumentation: \<open>llamadas\<close> counts the calls of \<^verbatim>\<open>client.models.generate_content\<close>,
  and \<open>reloj\<close> adds up the seconds the running thread has spent in \<^verbatim>\<open>time.sleep\<close> or in
  a \<^verbatim>\<open>get\<close> that timed out.
\<close>

record sistema =
  pregunta_cache :: "pydict list"
  llamadas :: nat
  reloj :: nat

section \<open>The queue operations app.py calls\<close>

text \<open>
  \<^verbatim>\<open>queue.Queue\<close> runs each method under the queue's own mutex, so a method is one atomic
  step on the content.

  \<^verbatim>\<open>pregunta_cache.qsize()\<close>.
\<close>

definition qsize :: "sistema \<Rightarrow> nat" where
  "qsize s = length (pregunta_cache s)"

text \<open>
  \<^verbatim>\<open>pregunta_cache.put(x)\<close>: \<^verbatim>\<open>block=True, timeout=None\<close>. With fewer than \<^verbatim>\<open>maxsize\<close>
  items the item is appended and the call returns \<^verbatim>\<open>None\<close>; on a full queue the caller
  waits for a free slot.
\<close>

definition queue_put :: "pydict \<Rightarrow> sistema \<Rightarrow> json outcome \<times> sistema" where
  "queue_put x s =
     (if qsize s < CACHE_SIZE
      then (Returns JNull, s\<lparr>pregunta_cache := pregunta_cache s @ [x]\<rparr>)
      else (Blocks, s))"

text \<open>
  \<^verbatim>\<open>pregunta_cache.get(timeout=t)\<close>, with no other thread running during the call: the
  oldest item is removed and returned; on an empty queue the caller waits \<open>t\<close> seconds and
  \<^verbatim>\<open>queue.Empty\<close> is raised.
\<close>

definition queue_get :: "nat \<Rightarrow> sistema \<Rightarrow> pydict outcome \<times> sistema" where
  "queue_get t s =
     (case pregunta_cache s of
        [] \<Rightarrow> (Raises Empty, s\<lparr>reloj := reloj s + t\<rparr>)
      | x # xs \<Rightarrow> (Returns x, s\<lparr>pregunta_cache := xs\<rparr>))"

text \<open>\<^verbatim>\<open>time.sleep(t)\<close>.\<close>

definition sleep :: "nat \<Rightarrow> sistema \<Rightarrow> sistema" where
  "sleep t s = s\<lparr>reloj := reloj s + t\<rparr>"

section \<open>generar\_pregunta\<close>

text \<open>
  What one call of \<^verbatim>\<open>client.models.generate_content\<close> does: it raises, or it returns a
  response whose \<^verbatim>\<open>.text\<close> is a string or \<^verbatim>\<open>None\<close>. The remote service is a function from
  the number of the call to its result, and \<^verbatim>\<open>json.loads\<close> is a parameter: \<open>Inl\<close> carries
  the message of its \<^verbatim>\<open>JSONDecodeError\<close>.
\<close>

datatype api_result = ApiRaises string | ApiResponse "string option"

type_synonym loads = "string \<Rightarrow> string + json"

type_synonym servicio = "nat \<Rightarrow> api_result"

text \<open>Lines 100 to 107: strip, then drop the Markdown fences.\<close>

definition limpiar :: "string \<Rightarrow> string" where
  "limpiar t =
     (let text = py_strip t;
          text = (if py_startswith text ''```json'' then drop 7 text else text);
          text = (if py_startswith text ''```'' then drop 3 text else text);
          text = (if py_endswith text ''```'' then take (length text - 3) text else text)
      in text)"

text \<open>Lines 110 to 114.\<close>

fun normalizar_respuestas :: "json \<Rightarrow> json" where
  "normalizar_respuestas (JStr r) = JList (map (\<lambda>p. JStr (py_strip p)) (py_split CHR '','' r))"
| "normalizar_respuestas (JList rs) = JList rs"
| "normalizar_respuestas _ = JList []"

text \<open>Lines 108 to 122: \<^verbatim>\<open>.get\<close> exists on a \<^verbatim>\<open>dict\<close> only.\<close>

fun armar_pregunta :: "json \<Rightarrow> exn + pydict" where
  "armar_pregunta (JObj pregunta_json) =
     Inr [(''pregunta'', dict_get pregunta_json ''Pregunta''),
          (''codigo'', dict_get pregunta_json ''Codigo''),
          (''respuestas'', normalizar_respuestas (dict_get pregunta_json ''Respuestas'')),
          (''respuesta_correcta'', dict_get pregunta_json ''Respuesta correcta''),
          (''explicacion'', dict_get_default pregunta_json ''Explicacion'' (JStr []))]"
| "armar_pregunta j = Inl (AttributeError (type_name j) ''get'')"

text \<open>The body of the \<^verbatim>\<open>try\<close>, lines 100 to 122.\<close>

definition try_body :: "loads \<Rightarrow> string option \<Rightarrow> exn + pydict" where
  "try_body json_loads response_text =
     (case response_text of
        None \<Rightarrow> Inl (AttributeError ''NoneType'' ''strip'')
      | Some t \<Rightarrow>
          (case json_loads (limpiar t) of
             Inl m \<Rightarrow> Inl (JSONDecodeError m)
           | Inr pregunta_json \<Rightarrow> armar_pregunta pregunta_json))"

text \<open>Lines 99 to 125: the \<^verbatim>\<open>try\<close> with its handler, which returns the error dictionary.\<close>

definition procesar_respuesta :: "loads \<Rightarrow> string option \<Rightarrow> pydict" where
  "procesar_respuesta json_loads response_text =
     (case try_body json_loads response_text of
        Inr pregunta \<Rightarrow> pregunta
      | Inl e \<Rightarrow>
          [(''error'', JStr ''No se pudo extraer el JSON''),
           (''detalle'', JStr (str_exn e)),
           (''texto'', (case response_text of None \<Rightarrow> JNull | Some t \<Rightarrow> JStr t))])"

text \<open>
  \<^verbatim>\<open>generar_pregunta()\<close>: the remote call is outside the \<^verbatim>\<open>try\<close>, so what it raises
  leaves the function.
\<close>

definition generar_pregunta :: "loads \<Rightarrow> servicio \<Rightarrow> sistema \<Rightarrow> pydict outcome \<times> sistema" where
  "generar_pregunta json_loads api s =
     (let s' = s\<lparr>llamadas := llamadas s + 1\<rparr>
      in case api (llamadas s) of
           ApiRaises m \<Rightarrow> (Raises (ErrorAPI m), s')
         | ApiResponse response_text \<Rightarrow> (Returns (procesar_respuesta json_loads response_text), s'))"

section \<open>obtener\_pregunta\_cache\<close>

definition obtener_pregunta_cache :: "loads \<Rightarrow> servicio \<Rightarrow> sistema \<Rightarrow> pydict outcome \<times> sistema" where
  "obtener_pregunta_cache json_loads api s =
     (case queue_get 10 s of
        (Returns x, s') \<Rightarrow> (Returns x, s')
      | (Raises e, s') \<Rightarrow> generar_pregunta json_loads api s'
      | (Blocks, s') \<Rightarrow> (Blocks, s'))"

section \<open>precargar\_preguntas\<close>

text \<open>
  The worker thread, as it runs once the module has been loaded (it is started at line 85,
  before line 90 has bound \<^verbatim>\<open>generar_pregunta\<close>).

  The condition of line 77; the value is always a \<^verbatim>\<open>dict\<close> here.
\<close>

definition es_valida :: "pydict \<Rightarrow> bool" where
  "es_valida pregunta = (dict_has pregunta ''pregunta'' \<and> dict_has pregunta ''codigo'')"

text \<open>
  Lines 75 to 78, the body of the \<^verbatim>\<open>try\<close> of the loop; what \<^verbatim>\<open>put\<close> returns is not used.
\<close>

definition precargar_try :: "loads \<Rightarrow> servicio \<Rightarrow> sistema \<Rightarrow> unit outcome \<times> sistema" where
  "precargar_try json_loads api s =
     (case generar_pregunta json_loads api s of
        (Returns pregunta, s') \<Rightarrow>
          (if es_valida pregunta
           then (case queue_put pregunta s' of
                   (Returns v, s'') \<Rightarrow> (Returns (), s'')
                 | (Raises e, s'') \<Rightarrow> (Raises e, s'')
                 | (Blocks, s'') \<Rightarrow> (Blocks, s''))
           else (Returns (), s'))
      | (Raises e, s') \<Rightarrow> (Raises e, s')
      | (Blocks, s') \<Rightarrow> (Blocks, s'))"

text \<open>
  One pass through the body of \<^verbatim>\<open>while True\<close>, lines 73 to 82; \<^verbatim>\<open>except Exception: pass\<close>
  turns a raise of the \<^verbatim>\<open>try\<close> body into a normal end of the pass.
\<close>

definition precargar_iter :: "loads \<Rightarrow> servicio \<Rightarrow> sistema \<Rightarrow> unit outcome \<times> sistema" where
  "precargar_iter json_loads api s =
     (if qsize s < CACHE_MIN
      then (case precargar_try json_loads api s of
              (Raises e, s') \<Rightarrow> (Returns (), s')
            | r \<Rightarrow> r)
      else (Returns (), sleep 2 s))"

text \<open>
  The first \<open>n\<close> passes of the loop. The loop has no exit; a pass that raised or blocked
  would end the run there.
\<close>

fun precargar_preguntas :: "nat \<Rightarrow> loads \<Rightarrow> servicio \<Rightarrow> sistema \<Rightarrow> unit outcome \<times> sistema" where
  "precargar_preguntas 0 json_loads api s = (Returns (), s)"
| "precargar_preguntas (Suc n) json_loads api s =
     (case precargar_iter json_loads api s of
        (Returns u, s') \<Rightarrow> precargar_preguntas n json_loads api s'
      | r \<Rightarrow> r)"

section \<open>Sequences of queue operations\<close>

text \<open>
  Threads share nothing but the queue, and each queue method is atomic, so a run of any
  number of threads shows on the queue as one sequence of \<^verbatim>\<open>put\<close> and \<^verbatim>\<open>get\<close> calls, in
  the order in which they took the mutex. A \<open>Put\<close> that finds the queue full and a \<open>Get\<close>
  that finds it empty leave the content as it is: the caller has not been served.
\<close>

datatype operacion = Put pydict | Get

fun aplicar :: "operacion \<Rightarrow> sistema \<Rightarrow> sistema" where
  "aplicar (Put x) s = snd (queue_put x s)"
| "aplicar Get s = snd (queue_get 10 s)"

text \<open>
  What one operation takes into the queue, what it hands to its caller, and both added up
  along a sequence.
\<close>

fun aceptada :: "operacion \<Rightarrow> sistema \<Rightarrow> pydict list" where
  "aceptada (Put x) s = (case fst (queue_put x s) of Returns u \<Rightarrow> [x] | _ \<Rightarrow> [])"
| "aceptada Get s = []"

fun entregada :: "operacion \<Rightarrow> sistema \<Rightarrow> pydict list" where
  "entregada (Put x) s = []"
| "entregada Get s = (case fst (queue_get 10 s) of Returns x \<Rightarrow> [x] | _ \<Rightarrow> [])"

fun aceptadas :: "operacion list \<Rightarrow> sistema \<Rightarrow> pydict list" where
  "aceptadas [] s = []"
| "aceptadas (op # ops) s = aceptada op s @ aceptadas ops (aplicar op s)"

fun entregadas :: "operacion list \<Rightarrow> sistema \<Rightarrow> pydict list" where
  "entregadas [] s = []"
| "entregadas (op # ops) s = entregada op s @ entregadas ops (aplicar op s)"

text \<open>The number of \<^verbatim>\<open>get\<close> calls in a sequence.\<close>

definition cuenta_get :: "operacion list \<Rightarrow> nat" where
  "cuenta_get ops = length (filter (\<lambda>op. op = Get) ops)"

text \<open>\<open>n\<close> calls of \<^verbatim>\<open>obtener_pregunta_cache\<close>, in the order in which they are served.\<close>

fun obtener_varias :: "nat \<Rightarrow> loads \<Rightarrow> servicio \<Rightarrow> sistema \<Rightarrow> pydict outcome list \<times> sistema" where
  "obtener_varias 0 L api s = ([], s)"
| "obtener_varias (Suc n) L api s =
     (case obtener_pregunta_cache L api s of
        (r, s') \<Rightarrow> (case obtener_varias n L api s' of (rs, s'') \<Rightarrow> (r # rs, s'')))"

section \<open>The validity predicate of the specification\<close>

text \<open>
  The specification's \<^verbatim>\<open>IsValid\<close> (its section 4.4), word for word, on the dictionary
  \<^verbatim>\<open>generar_pregunta\<close> builds: non-empty question text, non-empty code fragment, non-empty
  answer list, and a correct-answer string that is one of the answers. It is compared with
  \<open>es_valida\<close>, which is what line 77 of app.py tests.
\<close>

fun texto_no_vacio :: "json \<Rightarrow> bool" where
  "texto_no_vacio (JStr t) = (t \<noteq> [])"
| "texto_no_vacio _ = False"

definition spec_IsValid :: "pydict \<Rightarrow> bool" where
  "spec_IsValid item =
     (texto_no_vacio (dict_get item ''pregunta'')
      \<and> texto_no_vacio (dict_get item ''codigo'')
      \<and> (case dict_get item ''respuestas'' of
            JList rs \<Rightarrow>
              rs \<noteq> []
              \<and> (case dict_get item ''respuesta_correcta'' of
                    JStr a \<Rightarrow> JStr a \<in> set rs
                  | _ \<Rightarrow> False)
          | _ \<Rightarrow> False))"

text \<open>
  A generator call that fails in the worker: the remote call raises, or its result does
  not pass line 77.
\<close>

definition falla :: "loads \<Rightarrow> api_result \<Rightarrow> bool" where
  "falla L r =
     (case r of
        ApiRaises m \<Rightarrow> True
      | ApiResponse t \<Rightarrow> \<not> es_valida (procesar_respuesta L t))"

section \<open>Concrete inputs\<close>

text \<open>
  A \<^verbatim>\<open>json.loads\<close> given by a table from texts to decoded values; any other text is a
  decoding error. The state at start-up has an empty queue.
\<close>

definition loads_tabla :: "(string \<times> json) list \<Rightarrow> loads" where
  "loads_tabla tabla t =
     (case map_of tabla t of
        Some j \<Rightarrow> Inr j
      | None \<Rightarrow> Inl ''Expecting value: line 1 column 1 (char 0)'')"

definition inicial :: sistema where
  "inicial = \<lparr>pregunta_cache = [], llamadas = 0, reloj = 0\<rparr>"

definition item_a :: pydict where
  "item_a = [(''pregunta'', JStr ''a''), (''codigo'', JStr ''x'')]"

definition item_b :: pydict where
  "item_b = [(''pregunta'', JStr ''b''), (''codigo'', JStr ''y'')]"

definition item_c :: pydict where
  "item_c = [(''pregunta'', JStr ''c''), (''codigo'', JStr ''z'')]"

definition s_uno :: sistema where
  "s_uno = \<lparr>pregunta_cache = [item_a], llamadas = 0, reloj = 0\<rparr>"

definition s_dos :: sistema where
  "s_dos = \<lparr>pregunta_cache = [item_a, item_b], llamadas = 5, reloj = 0\<rparr>"

definition s_diez :: sistema where
  "s_diez = \<lparr>pregunta_cache = replicate 10 item_a, llamadas = 0, reloj = 0\<rparr>"

definition api_caida :: servicio where
  "api_caida = (\<lambda>k. if even k then ApiRaises ''503 UNAVAILABLE'' else ApiResponse None)"

definition api_texto :: "string \<Rightarrow> servicio" where
  "api_texto t = (\<lambda>k. ApiResponse (Some t))"

definition texto_sin_correcta :: string where
  \<open>texto_sin_correcta = ''{"Pregunta": "q", "Codigo": "c", "Respuestas": ["a", "b"]}''\<close>

definition json_sin_correcta :: json where
  "json_sin_correcta =
     JObj [(''Pregunta'', JStr ''q''), (''Codigo'', JStr ''c''),
           (''Respuestas'', JList [JStr ''a'', JStr ''b''])]"

definition loads_sin_correcta :: loads where
  "loads_sin_correcta = loads_tabla [(texto_sin_correcta, json_sin_correcta)]"

definition pregunta_sin_correcta :: pydict where
  "pregunta_sin_correcta =
     [(''pregunta'', JStr ''q''), (''codigo'', JStr ''c''),
      (''respuestas'', JList [JStr ''a'', JStr ''b'']),
      (''respuesta_correcta'', JNull), (''explicacion'', JStr [])]"

definition texto_respuestas_str :: string where
  \<open>texto_respuestas_str = ''{"Pregunta": "q", "Codigo": "c", "Respuestas": " 1, 2 ,3"}''\<close>

definition kv_respuestas_str :: pydict where
  "kv_respuestas_str =
     [(''Pregunta'', JStr ''q''), (''Codigo'', JStr ''c''), (''Respuestas'', JStr '' 1, 2 ,3'')]"

definition texto_respuestas_num :: string where
  \<open>texto_respuestas_num = ''```json{"Pregunta": "q", "Codigo": "c", "Respuestas": 7}```''\<close>

definition kv_respuestas_num :: pydict where
  "kv_respuestas_num =
     [(''Pregunta'', JStr ''q''), (''Codigo'', JStr ''c''), (''Respuestas'', JInt 7)]"

definition loads_respuestas :: loads where
  \<open>loads_respuestas =
     loads_tabla [(texto_respuestas_str, JObj kv_respuestas_str),
                  (''{"Pregunta": "q", "Codigo": "c", "Respuestas": 7}'', JObj kv_respuestas_num)]\<close>

definition s_casi_lleno :: sistema where
  "s_casi_lleno = \<lparr>pregunta_cache = replicate 39 pregunta_sin_correcta, llamadas = 0, reloj = 0\<rparr>"

text \<open>\<^verbatim>\<open>c.join(parts)\<close>, to say what \<open>py_split\<close> computes.\<close>

fun py_join :: "char \<Rightarrow> string list \<Rightarrow> string" where
  "py_join c [] = []"
| "py_join c [p] = p"
| "py_join c (p # q # ps) = p @ c # py_join c (q # ps)"

section \<open>The worker among the request threads\<close>

text \<open>
  The statement the worker thread runs next: the test of line 73, the call of line 75, the
  \<^verbatim>\<open>put\<close> of line 78 with the item it holds, or the \<^verbatim>\<open>sleep\<close> of line 82.
\<close>

datatype hilo = EnCheck | EnGenerar | EnPut pydict | EnSleep

text \<open>
  What the scheduler lets run next: the worker, for one statement, or a request thread,
  for one call of \<^verbatim>\<open>obtener_pregunta_cache\<close> (a call that waits is served when its turn comes).
  Line 85 starts one worker thread, and no other code puts into the queue.
\<close>

datatype evento = Trabajador | Consumidor

fun paso_trabajador :: "loads \<Rightarrow> servicio \<Rightarrow> hilo \<times> sistema \<Rightarrow> hilo \<times> sistema" where
  "paso_trabajador json_loads api (EnCheck, s) =
     (if qsize s < CACHE_MIN then (EnGenerar, s) else (EnSleep, s))"
| "paso_trabajador json_loads api (EnGenerar, s) =
     (case generar_pregunta json_loads api s of
        (Returns pregunta, s') \<Rightarrow>
          (if es_valida pregunta then (EnPut pregunta, s') else (EnCheck, s'))
      | (Raises e, s') \<Rightarrow> (EnCheck, s')
      | (Blocks, s') \<Rightarrow> (EnGenerar, s'))"
| "paso_trabajador json_loads api (EnPut pregunta, s) =
     (case queue_put pregunta s of
        (Returns v, s') \<Rightarrow> (EnCheck, s')
      | (Raises e, s') \<Rightarrow> (EnCheck, s')
      | (Blocks, s') \<Rightarrow> (EnPut pregunta, s'))"
| "paso_trabajador json_loads api (EnSleep, s) = (EnCheck, sleep 2 s)"

fun paso :: "loads \<Rightarrow> servicio \<Rightarrow> evento \<Rightarrow> hilo \<times> sistema \<Rightarrow> hilo \<times> sistema" where
  "paso json_loads api Trabajador c = paso_trabajador json_loads api c"
| "paso json_loads api Consumidor (pc, s) = (pc, snd (obtener_pregunta_cache json_loads api s))"

definition correr :: "loads \<Rightarrow> servicio \<Rightarrow> evento list \<Rightarrow> hilo \<times> sistema \<Rightarrow> hilo \<times> sistema" where
  "correr json_loads api es c = fold (paso json_loads api) es c"

text \<open>The process at start-up: the worker at the head of its loop, the queue empty.\<close>

definition arranque :: "hilo \<times> sistema" where
  "arranque = (EnCheck, inicial)"

text \<open>
  The invariant of the run: the queue holds at most \<open>CACHE_MIN\<close> items, and fewer while the
  worker is between its test and its \<^verbatim>\<open>put\<close>.
\<close>

fun bajo_umbral :: "hilo \<times> sistema \<Rightarrow> bool" where
  "bajo_umbral (EnCheck, s) = (qsize s \<le> CACHE_MIN)"
| "bajo_umbral (EnSleep, s) = (qsize s \<le> CACHE_MIN)"
| "bajo_umbral (EnGenerar, s) = (qsize s < CACHE_MIN)"
| "bajo_umbral (EnPut pregunta, s) = (qsize s < CACHE_MIN)"

section \<open>Facts about the string methods\<close>

lemma py_split_no_vacia: "py_split c s \<noteq> []"
  by (induction s) (auto split: list.splits)

lemma py_join_split: "py_join c (py_split c s) = s"
proof (induction s)
  case Nil
  show ?case by simp
next
  case (Cons x xs)
  obtain w ws where w: "py_split c xs = w # ws"
    using py_split_no_vacia [of c xs] by (cases "py_split c xs") auto
  with Cons show ?case
    by (cases ws) auto
qed

lemma py_split_sin_separador: "p \<in> set (py_split c s) \<Longrightarrow> c \<notin> set p"
proof (induction s arbitrary: p)
  case Nil
  then show ?case by simp
next
  case (Cons x xs)
  obtain w ws where w: "py_split c xs = w # ws"
    using py_split_no_vacia [of c xs] by (cases "py_split c xs") auto
  with Cons show ?case
    by (auto split: if_splits)
qed

lemma py_split_length: "length (py_split c s) = Suc (count_list s c)"
proof (induction s)
  case Nil
  show ?case by simp
next
  case (Cons x xs)
  obtain w ws where w: "py_split c xs = w # ws"
    using py_split_no_vacia [of c xs] by (cases "py_split c xs") auto
  with Cons show ?case
    by auto
qed

lemma py_strip_partes:
  "s = takeWhile py_isspace s @ py_strip s
         @ rev (takeWhile py_isspace (rev (dropWhile py_isspace s)))"
proof -
  let ?m = "dropWhile py_isspace s"
  have "py_strip s @ rev (takeWhile py_isspace (rev ?m))
          = rev (takeWhile py_isspace (rev ?m) @ dropWhile py_isspace (rev ?m))"
    by (simp only: py_strip_def rev_append)
  also have "\<dots> = rev (rev ?m)"
    by (simp only: takeWhile_dropWhile_id)
  also have "\<dots> = ?m"
    by simp
  finally have m: "py_strip s @ rev (takeWhile py_isspace (rev ?m)) = ?m" .
  have "s = takeWhile py_isspace s @ ?m"
    by simp
  with m show ?thesis by simp
qed

lemma py_strip_bordes:
  assumes "py_strip s \<noteq> []"
  shows "\<not> py_isspace (hd (py_strip s)) \<and> \<not> py_isspace (last (py_strip s))"
proof -
  let ?m = "dropWhile py_isspace s"
  let ?d = "dropWhile py_isspace (rev ?m)"
  from assms have d: "?d \<noteq> []"
    by (simp add: py_strip_def)
  then have l: "\<not> py_isspace (hd ?d)"
    by (rule hd_dropWhile)
  have "last (py_strip s) = hd ?d"
    using d by (simp add: py_strip_def last_rev)
  with l have 1: "\<not> py_isspace (last (py_strip s))" by simp
  have m: "?m \<noteq> []"
  proof
    assume e: "?m = []"
    have "?d = dropWhile py_isspace (rev [])"
      by (simp only: e)
    with d show False by simp
  qed
  then have h: "\<not> py_isspace (hd ?m)"
    by (rule hd_dropWhile)
  have "takeWhile py_isspace s @ ?m
          = takeWhile py_isspace s @ py_strip s @ rev (takeWhile py_isspace (rev ?m))"
    using py_strip_partes [of s] by (simp only: takeWhile_dropWhile_id)
  then have "?m = py_strip s @ rev (takeWhile py_isspace (rev ?m))"
    by (simp only: same_append_eq)
  with assms have "hd ?m = hd (py_strip s)"
    by (metis hd_append2)
  with h have 2: "\<not> py_isspace (hd (py_strip s))" by simp
  from 1 2 show ?thesis by simp
qed

lemma py_strip_spec:
  "\<exists>a b. s = a @ py_strip s @ b \<and> (\<forall>c\<in>set a. py_isspace c) \<and> (\<forall>c\<in>set b. py_isspace c)"
proof (intro exI conjI)
  show "s = takeWhile py_isspace s @ py_strip s
         @ rev (takeWhile py_isspace (rev (dropWhile py_isspace s)))"
    by (rule py_strip_partes)
  show "\<forall>c\<in>set (takeWhile py_isspace s). py_isspace c"
    by (auto dest: set_takeWhileD)
  show "\<forall>c\<in>set (rev (takeWhile py_isspace (rev (dropWhile py_isspace s)))). py_isspace c"
    by (auto dest: set_takeWhileD)
qed

section \<open>Facts about generar\_pregunta and obtener\_pregunta\_cache\<close>

lemma generar_pregunta_estado:
  "snd (generar_pregunta L api s) = s\<lparr>llamadas := llamadas s + 1\<rparr>"
  by (simp add: generar_pregunta_def Let_def split: api_result.splits)

lemma generar_pregunta_res:
  "fst (generar_pregunta L api s) =
     (case api (llamadas s) of
        ApiRaises m \<Rightarrow> Raises (ErrorAPI m)
      | ApiResponse t \<Rightarrow> Returns (procesar_respuesta L t))"
  by (simp add: generar_pregunta_def Let_def split: api_result.splits)

lemma generar_pregunta_no_bloquea: "fst (generar_pregunta L api s) \<noteq> Blocks"
  by (simp add: generar_pregunta_res split: api_result.splits)

lemma try_body_valida: "try_body L t = Inr p \<Longrightarrow> es_valida p"
  by (auto simp: try_body_def es_valida_def dict_has_def
      split: option.splits sum.splits elim!: armar_pregunta.elims)

lemma procesar_respuesta_valida:
  "es_valida (procesar_respuesta L t) \<longleftrightarrow> (\<exists>p. try_body L t = Inr p)"
proof (cases "try_body L t")
  case (Inl e)
  then show ?thesis
    by (simp add: procesar_respuesta_def es_valida_def dict_has_def)
next
  case (Inr p)
  then show ?thesis
    using try_body_valida [OF Inr] by (simp add: procesar_respuesta_def)
qed

lemma try_body_Inr:
  "(\<exists>p. try_body L t = Inr p) \<longleftrightarrow> (\<exists>cuerpo kv. t = Some cuerpo \<and> L (limpiar cuerpo) = Inr (JObj kv))"
proof
  assume "\<exists>p. try_body L t = Inr p"
  then obtain p where p: "try_body L t = Inr p" ..
  then obtain cuerpo where t: "t = Some cuerpo"
    by (cases t) (simp_all add: try_body_def)
  from p t obtain j where j: "L (limpiar cuerpo) = Inr j" and a: "armar_pregunta j = Inr p"
    by (cases "L (limpiar cuerpo)") (simp_all add: try_body_def)
  from a obtain kv where "j = JObj kv"
    by (cases j) simp_all
  with t j show "\<exists>cuerpo kv. t = Some cuerpo \<and> L (limpiar cuerpo) = Inr (JObj kv)"
    by blast
next
  assume "\<exists>cuerpo kv. t = Some cuerpo \<and> L (limpiar cuerpo) = Inr (JObj kv)"
  then show "\<exists>p. try_body L t = Inr p"
    by (auto simp: try_body_def)
qed

lemma try_body_sin_error: "try_body L t = Inr p \<Longrightarrow> \<not> dict_has p ''error''"
  by (auto simp: try_body_def dict_has_def
      split: option.splits sum.splits elim!: armar_pregunta.elims)

lemma armar_respuestas:
  "dict_get (procesar_respuesta L (Some t)) ''respuestas'' =
     (case L (limpiar t) of
        Inr (JObj kv) \<Rightarrow> normalizar_respuestas (dict_get kv ''Respuestas'')
      | _ \<Rightarrow> JNull)"
  by (simp add: procesar_respuesta_def try_body_def dict_get_def
      split: sum.splits json.splits)

lemma obtener_vacio:
  "pregunta_cache s = [] \<Longrightarrow>
   obtener_pregunta_cache L api s = generar_pregunta L api (s\<lparr>reloj := reloj s + 10\<rparr>)"
  by (simp add: obtener_pregunta_cache_def queue_get_def)

section \<open>Facts about one pass of the worker\<close>

lemma precargar_try_llamadas:
  "llamadas (snd (precargar_try L api s)) = llamadas s + 1"
  by (simp add: precargar_try_def generar_pregunta_def Let_def queue_put_def
      split: api_result.splits)

lemma precargar_try_no_bloquea:
  "qsize s < CACHE_SIZE \<Longrightarrow> fst (precargar_try L api s) \<noteq> Blocks"
  by (simp add: precargar_try_def generar_pregunta_def Let_def queue_put_def qsize_def
      split: api_result.splits)

lemma precargar_iter_retorna: "fst (precargar_iter L api s) = Returns ()"
proof (cases "qsize s < CACHE_MIN")
  case True
  then have "qsize s < CACHE_SIZE"
    by (simp add: CACHE_MIN_def CACHE_SIZE_def)
  then have nb: "fst (precargar_try L api s) \<noteq> Blocks"
    by (rule precargar_try_no_bloquea)
  obtain r s' where p: "precargar_try L api s = (r, s')"
    by (cases "precargar_try L api s")
  with nb True show ?thesis
    by (cases r) (simp_all add: precargar_iter_def)
next
  case False
  then show ?thesis
    by (simp add: precargar_iter_def)
qed

lemma precargar_preguntas_retorna: "fst (precargar_preguntas n L api s) = Returns ()"
proof (induction n arbitrary: s)
  case 0
  show ?case by simp
next
  case (Suc n)
  obtain r s' where p: "precargar_iter L api s = (r, s')"
    by (cases "precargar_iter L api s")
  with precargar_iter_retorna [of L api s] have "r = Returns ()" by simp
  with p Suc show ?case by simp
qed

lemma precargar_iter_bajo:
  "qsize s < CACHE_MIN \<Longrightarrow>
   llamadas (snd (precargar_iter L api s)) = llamadas s + 1
   \<and> reloj (snd (precargar_iter L api s)) = reloj s"
  by (simp add: precargar_iter_def precargar_try_def generar_pregunta_def Let_def
      queue_put_def split: api_result.splits)

lemma precargar_iter_alto:
  "CACHE_MIN \<le> qsize s \<Longrightarrow>
   precargar_iter L api s = (Returns (), s\<lparr>reloj := reloj s + 2\<rparr>)"
  by (simp add: precargar_iter_def sleep_def)

lemma precargar_iter_falla:
  assumes "qsize s < CACHE_MIN" and "falla L (api (llamadas s))"
  shows "precargar_iter L api s = (Returns (), s\<lparr>llamadas := llamadas s + 1\<rparr>)"
  using assms
  by (simp add: precargar_iter_def precargar_try_def generar_pregunta_def Let_def falla_def
      split: api_result.splits)

lemma precargar_preguntas_falla:
  assumes "qsize s < CACHE_MIN" and "\<forall>k<n. falla L (api (llamadas s + k))"
  shows "precargar_preguntas n L api s = (Returns (), s\<lparr>llamadas := llamadas s + n\<rparr>)"
  using assms
proof (induction n arbitrary: s)
  case 0
  show ?case by simp
next
  case (Suc n)
  from Suc.prems(2) have f0: "falla L (api (llamadas s))"
    by (metis add.right_neutral zero_less_Suc)
  let ?s' = "s\<lparr>llamadas := llamadas s + 1\<rparr>"
  have it: "precargar_iter L api s = (Returns (), ?s')"
    using Suc.prems(1) f0 by (rule precargar_iter_falla)
  have q': "qsize ?s' < CACHE_MIN"
    using Suc.prems(1) by (simp add: qsize_def)
  have f': "\<forall>k<n. falla L (api (llamadas ?s' + k))"
  proof (intro allI impI)
    fix k assume "k < n"
    then have "Suc k < Suc n" by simp
    with Suc.prems(2) have "falla L (api (llamadas s + Suc k))" by blast
    then show "falla L (api (llamadas ?s' + k))" by simp
  qed
  have "precargar_preguntas n L api ?s' = (Returns (), ?s'\<lparr>llamadas := llamadas ?s' + n\<rparr>)"
    using q' f' by (rule Suc.IH)
  with it show ?case by simp
qed

lemma precargar_iter_respuesta:
  assumes "qsize s < CACHE_MIN" and "api (llamadas s) = ApiResponse t"
  shows "pregunta_cache (snd (precargar_iter L api s)) =
           (if es_valida (procesar_respuesta L t)
            then pregunta_cache s @ [procesar_respuesta L t]
            else pregunta_cache s)"
  using assms
  by (simp add: precargar_iter_def precargar_try_def generar_pregunta_def Let_def
      queue_put_def qsize_def CACHE_MIN_def CACHE_SIZE_def)

section \<open>Facts about sequences of queue operations\<close>

lemma aplicar_cota: "qsize s \<le> CACHE_SIZE \<Longrightarrow> qsize (aplicar op s) \<le> CACHE_SIZE"
  by (cases op) (auto simp: queue_put_def queue_get_def qsize_def split: list.splits)

lemma fold_aplicar_cota:
  "qsize s \<le> CACHE_SIZE \<Longrightarrow> qsize (fold aplicar ops s) \<le> CACHE_SIZE"
  by (induction ops arbitrary: s) (simp_all add: aplicar_cota)

lemma paso_historia:
  "pregunta_cache s @ aceptada op s = entregada op s @ pregunta_cache (aplicar op s)"
  by (cases op) (auto simp: queue_put_def queue_get_def split: list.splits)

lemma historia:
  "pregunta_cache s @ aceptadas ops s = entregadas ops s @ pregunta_cache (fold aplicar ops s)"
proof (induction ops arbitrary: s)
  case Nil
  show ?case by simp
next
  case (Cons op ops)
  have "pregunta_cache s @ aceptadas (op # ops) s
          = (pregunta_cache s @ aceptada op s) @ aceptadas ops (aplicar op s)"
    by simp
  also have "\<dots> = entregada op s @ (pregunta_cache (aplicar op s) @ aceptadas ops (aplicar op s))"
    by (simp add: paso_historia)
  also have "\<dots> = entregada op s @ entregadas ops (aplicar op s)
                    @ pregunta_cache (fold aplicar ops (aplicar op s))"
    by (simp add: Cons.IH)
  finally show ?case by simp
qed

lemma entregadas_servidas:
  "cuenta_get ops \<le> qsize s \<Longrightarrow> entregadas ops s = take (cuenta_get ops) (pregunta_cache s)"
proof (induction ops arbitrary: s)
  case Nil
  show ?case by (simp add: cuenta_get_def)
next
  case (Cons op ops)
  show ?case
  proof (cases op)
    case (Put x)
    have n: "cuenta_get (op # ops) = cuenta_get ops"
      using Put by (simp add: cuenta_get_def)
    with Cons.prems have le: "cuenta_get ops \<le> qsize s" by simp
    have "qsize s \<le> qsize (aplicar op s)"
      using Put by (simp add: queue_put_def qsize_def)
    with le have "cuenta_get ops \<le> qsize (aplicar op s)" by simp
    then have "entregadas ops (aplicar op s)
                 = take (cuenta_get ops) (pregunta_cache (aplicar op s))"
      by (rule Cons.IH)
    also have "\<dots> = take (cuenta_get ops) (pregunta_cache s)"
      using le Put by (simp add: queue_put_def qsize_def)
    finally show ?thesis
      using Put n by simp
  next
    case Get
    have n: "cuenta_get (op # ops) = Suc (cuenta_get ops)"
      using Get by (simp add: cuenta_get_def)
    with Cons.prems obtain y ys where q: "pregunta_cache s = y # ys"
      by (cases "pregunta_cache s") (simp_all add: qsize_def)
    have a: "aplicar op s = s\<lparr>pregunta_cache := ys\<rparr>"
      using Get q by (simp add: queue_get_def)
    have "cuenta_get ops \<le> qsize (aplicar op s)"
      using Cons.prems n q a by (simp add: qsize_def)
    then have "entregadas ops (aplicar op s)
                 = take (cuenta_get ops) (pregunta_cache (aplicar op s))"
      by (rule Cons.IH)
    then show ?thesis
      using Get n q a by (simp add: queue_get_def)
  qed
qed

lemma obtener_varias_lleno:
  "pregunta_cache s = q \<Longrightarrow>
   obtener_varias (length q) L api s = (map Returns q, s\<lparr>pregunta_cache := []\<rparr>)"
proof (induction q arbitrary: s)
  case Nil
  then show ?case by simp
next
  case (Cons x xs)
  have o: "obtener_pregunta_cache L api s = (Returns x, s\<lparr>pregunta_cache := xs\<rparr>)"
    using Cons.prems by (simp add: obtener_pregunta_cache_def queue_get_def)
  have "obtener_varias (length xs) L api (s\<lparr>pregunta_cache := xs\<rparr>)
          = (map Returns xs, s\<lparr>pregunta_cache := xs\<rparr>\<lparr>pregunta_cache := []\<rparr>)"
    by (rule Cons.IH) simp
  with o show ?case by simp
qed

section \<open>Facts about the interleaved run\<close>

lemma qsize_generar: "qsize (snd (generar_pregunta L api s)) = qsize s"
  by (simp add: generar_pregunta_estado qsize_def)

lemma qsize_obtener: "qsize (snd (obtener_pregunta_cache L api s)) \<le> qsize s"
proof (cases "pregunta_cache s")
  case Nil
  then show ?thesis
    by (simp add: obtener_vacio generar_pregunta_estado qsize_def)
next
  case (Cons x xs)
  then show ?thesis
    by (simp add: obtener_pregunta_cache_def queue_get_def qsize_def)
qed

lemma bajo_umbral_trabajador:
  "bajo_umbral c \<Longrightarrow> bajo_umbral (paso_trabajador L api c)"
proof (cases c)
  case (Pair pc s)
  assume b: "bajo_umbral c"
  show ?thesis
  proof (cases pc)
    case EnCheck
    with Pair b show ?thesis by simp
  next
    case EnGenerar
    obtain r s' where g: "generar_pregunta L api s = (r, s')"
      by (cases "generar_pregunta L api s")
    with qsize_generar [of L api s] have q: "qsize s' = qsize s" by simp
    from Pair EnGenerar b have "qsize s < CACHE_MIN" by simp
    with q Pair EnGenerar g show ?thesis
      by (cases r) simp_all
  next
    case (EnPut pregunta)
    with Pair b show ?thesis
      by (simp add: queue_put_def qsize_def CACHE_MIN_def CACHE_SIZE_def)
  next
    case EnSleep
    with Pair b show ?thesis
      by (simp add: sleep_def qsize_def)
  qed
qed

lemma bajo_umbral_paso: "bajo_umbral c \<Longrightarrow> bajo_umbral (paso L api e c)"
proof (cases e)
  case Trabajador
  assume "bajo_umbral c"
  with Trabajador show ?thesis
    by (simp add: bajo_umbral_trabajador)
next
  case Consumidor
  assume b: "bajo_umbral c"
  obtain pc s where c: "c = (pc, s)" by (cases c)
  have "qsize (snd (obtener_pregunta_cache L api s)) \<le> qsize s"
    by (rule qsize_obtener)
  with b c Consumidor show ?thesis
    by (cases pc) simp_all
qed

lemma bajo_umbral_correr: "bajo_umbral c \<Longrightarrow> bajo_umbral (correr L api es c)"
  unfolding correr_def
  by (induction es arbitrary: c) (simp_all add: bajo_umbral_paso)

lemma bajo_umbral_arranque: "bajo_umbral arranque"
  by (simp add: arranque_def inicial_def qsize_def)

lemma bajo_umbral_qsize: "bajo_umbral (pc, s) \<Longrightarrow> qsize s \<le> CACHE_MIN"
  by (cases pc) simp_all

lemma pasada_sin_interrupcion:
  "\<exists>k. correr L api (replicate k Trabajador) (EnCheck, s)
         = (EnCheck, snd (precargar_iter L api s))"
proof (cases "qsize s < CACHE_MIN")
  case False
  then have "correr L api (replicate 2 Trabajador) (EnCheck, s)
               = (EnCheck, snd (precargar_iter L api s))"
    by (simp add: correr_def numeral_2_eq_2 precargar_iter_def)
  then show ?thesis ..
next
  case True
  obtain r s' where g: "generar_pregunta L api s = (r, s')"
    by (cases "generar_pregunta L api s")
  with qsize_generar [of L api s] have q: "qsize s' = qsize s" by simp
  show ?thesis
  proof (cases r)
    case (Returns pregunta)
    show ?thesis
    proof (cases "es_valida pregunta")
      case v: True
      have "correr L api (replicate 3 Trabajador) (EnCheck, s)
               = (EnCheck, snd (precargar_iter L api s))"
        using True g Returns v q
        by (simp add: correr_def numeral_3_eq_3 precargar_iter_def precargar_try_def
            queue_put_def CACHE_MIN_def CACHE_SIZE_def)
      then show ?thesis ..
    next
      case v: False
      have "correr L api (replicate 2 Trabajador) (EnCheck, s)
               = (EnCheck, snd (precargar_iter L api s))"
        using True g Returns v
        by (simp add: correr_def numeral_2_eq_2 precargar_iter_def precargar_try_def)
      then show ?thesis ..
    qed
  next
    case (Raises e)
    have "correr L api (replicate 2 Trabajador) (EnCheck, s)
               = (EnCheck, snd (precargar_iter L api s))"
      using True g Raises
      by (simp add: correr_def numeral_2_eq_2 precargar_iter_def precargar_try_def)
    then show ?thesis ..
  next
    case Blocks
    with g generar_pregunta_no_bloquea [of L api s] show ?thesis by simp
  qed
qed

section \<open>Evaluation of the concrete inputs\<close>

lemma limpiar_sin_correcta: "limpiar texto_sin_correcta = texto_sin_correcta"
  by (simp add: limpiar_def texto_sin_correcta_def py_strip_def py_isspace_def
      py_startswith_def py_endswith_def)

lemma procesar_sin_correcta:
  "procesar_respuesta loads_sin_correcta (Some texto_sin_correcta) = pregunta_sin_correcta"
  by (simp add: procesar_respuesta_def try_body_def limpiar_sin_correcta loads_sin_correcta_def
      loads_tabla_def json_sin_correcta_def pregunta_sin_correcta_def dict_get_def
      dict_get_default_def)

lemma limpiar_respuestas_str: "limpiar texto_respuestas_str = texto_respuestas_str"
  by (simp add: limpiar_def texto_respuestas_str_def py_strip_def py_isspace_def
      py_startswith_def py_endswith_def)

lemma limpiar_respuestas_num:
  \<open>limpiar texto_respuestas_num = ''{"Pregunta": "q", "Codigo": "c", "Respuestas": 7}''\<close>
  by (simp add: limpiar_def texto_respuestas_num_def py_strip_def py_isspace_def
      py_startswith_def py_endswith_def)

lemma loads_respuestas_str:
  "loads_respuestas (limpiar texto_respuestas_str) = Inr (JObj kv_respuestas_str)"
  by (simp add: limpiar_respuestas_str loads_respuestas_def loads_tabla_def)

lemma loads_respuestas_num:
  "loads_respuestas (limpiar texto_respuestas_num) = Inr (JObj kv_respuestas_num)"
  by (simp add: limpiar_respuestas_num loads_respuestas_def loads_tabla_def
      texto_respuestas_str_def)

lemma try_body_sin_correcta:
  "try_body loads_sin_correcta (Some texto_sin_correcta) = Inr pregunta_sin_correcta"
  by (simp add: try_body_def limpiar_sin_correcta loads_sin_correcta_def
      loads_tabla_def json_sin_correcta_def pregunta_sin_correcta_def dict_get_def
      dict_get_default_def)

lemma es_valida_sin_correcta: "es_valida pregunta_sin_correcta"
  by (simp add: es_valida_def dict_has_def pregunta_sin_correcta_def)

lemma try_body_no_json:
  "try_body loads_sin_correcta (Some ''no json'')
     = Inl (JSONDecodeError ''Expecting value: line 1 column 1 (char 0)'')"
  by (simp add: try_body_def limpiar_def py_strip_def py_isspace_def py_startswith_def
      py_endswith_def loads_sin_correcta_def loads_tabla_def texto_sin_correcta_def)

lemma falla_api_caida: "falla L (api_caida k)"
  by (simp add: falla_def api_caida_def procesar_respuesta_def try_body_def es_valida_def
      dict_has_def)

section \<open>The claims\<close>

text \<open>
  C1 (capacity invariant). The queue is built with \<^verbatim>\<open>maxsize = CACHE_SIZE = 40\<close> and starts
  empty. From any content within the capacity, after every operation of every sequence of
  \<^verbatim>\<open>put\<close> and \<^verbatim>\<open>get\<close> calls, by whichever threads and in whichever order they are served,
  the size is at least 0 and at most the capacity: no set of enqueuers pushes it above 40.
\<close>

theorem C1_capacity_invariant:
  assumes "qsize s \<le> CACHE_SIZE"
  shows "CACHE_SIZE = 40
       \<and> qsize inicial \<le> CACHE_SIZE
       \<and> (\<forall>k. 0 \<le> qsize (fold aplicar (take k ops) s)
               \<and> qsize (fold aplicar (take k ops) s) \<le> CACHE_SIZE)"
  using assms
  by (simp add: fold_aplicar_cota CACHE_SIZE_def [symmetric])
    (simp add: CACHE_SIZE_def qsize_def inicial_def)

theorem C1_capacity_invariant_witness:
  "qsize s_casi_lleno \<le> CACHE_SIZE
   \<and> qsize (fold aplicar [Put pregunta_sin_correcta, Put pregunta_sin_correcta] s_casi_lleno) = 40
   \<and> qsize (fold aplicar (take 2 [Put pregunta_sin_correcta, Put pregunta_sin_correcta,
        Get, Put pregunta_sin_correcta]) s_casi_lleno) \<le> CACHE_SIZE"
proof -
  have h: "qsize s_casi_lleno \<le> CACHE_SIZE"
    by (simp add: qsize_def s_casi_lleno_def CACHE_SIZE_def)
  have e: "qsize (fold aplicar [Put pregunta_sin_correcta, Put pregunta_sin_correcta] s_casi_lleno) = 40"
    by (simp add: queue_put_def qsize_def s_casi_lleno_def CACHE_SIZE_def)
  from C1_capacity_invariant [OF h, of "[Put pregunta_sin_correcta, Put pregunta_sin_correcta,
        Get, Put pregunta_sin_correcta]"]
  have "qsize (fold aplicar (take 2 [Put pregunta_sin_correcta, Put pregunta_sin_correcta,
        Get, Put pregunta_sin_correcta]) s_casi_lleno) \<le> CACHE_SIZE"
    by blast
  with h e show ?thesis by blast
qed

text \<open>
  C2 (exactly-once delivery). Along every sequence of queue operations, the items that were
  in the queue or were taken in by a \<^verbatim>\<open>put\<close>, in order, are exactly the items handed out by
  the \<^verbatim>\<open>get\<close> calls, in order, followed by the items still queued: each slot goes to one
  \<^verbatim>\<open>get\<close> and none is dropped. So when the items placed are pairwise different, no item
  is handed out twice. When \<open>N\<close> \<^verbatim>\<open>get\<close> calls run against a cache holding \<open>N\<close> items,
  interleaved with any \<^verbatim>\<open>put\<close> calls, what they hand out is exactly those \<open>N\<close> items, one
  each; and \<open>N\<close> calls of \<^verbatim>\<open>obtener_pregunta_cache\<close> against such a cache return those \<open>N\<close>
  items, the \<open>k\<close>-th served call the \<open>k\<close>-th item, leave the cache empty and change nothing
  else: the generator is not called.
\<close>

theorem C2_exactly_once:
  "pregunta_cache s @ aceptadas ops s = entregadas ops s @ pregunta_cache (fold aplicar ops s)
   \<and> (distinct (pregunta_cache s @ aceptadas ops s) \<longrightarrow> distinct (entregadas ops s))
   \<and> (cuenta_get ops = qsize s \<longrightarrow> entregadas ops s = pregunta_cache s)
   \<and> obtener_varias (qsize s) L api s
       = (map Returns (pregunta_cache s), s\<lparr>pregunta_cache := []\<rparr>)"
proof -
  have h: "pregunta_cache s @ aceptadas ops s
             = entregadas ops s @ pregunta_cache (fold aplicar ops s)"
    by (rule historia)
  then have d: "distinct (pregunta_cache s @ aceptadas ops s) \<longrightarrow> distinct (entregadas ops s)"
    by simp
  have i: "cuenta_get ops = qsize s \<longrightarrow> entregadas ops s = pregunta_cache s"
    by (simp add: entregadas_servidas qsize_def)
  have o: "obtener_varias (qsize s) L api s
       = (map Returns (pregunta_cache s), s\<lparr>pregunta_cache := []\<rparr>)"
    unfolding qsize_def by (simp add: obtener_varias_lleno)
  from h d i o show ?thesis by blast
qed

theorem C2_exactly_once_witness:
  "distinct (pregunta_cache s_dos @ aceptadas [Get, Put item_c, Get, Get, Get] s_dos)
   \<and> entregadas [Get, Put item_c, Get, Get, Get] s_dos = [item_a, item_b, item_c]
   \<and> distinct (entregadas [Get, Put item_c, Get, Get, Get] s_dos)
   \<and> cuenta_get [Get, Put item_c, Get] = qsize s_dos
   \<and> entregadas [Get, Put item_c, Get] s_dos = [item_a, item_b]
   \<and> obtener_varias 2 loads_sin_correcta api_caida s_dos
       = ([Returns item_a, Returns item_b], \<lparr>pregunta_cache = [], llamadas = 5, reloj = 0\<rparr>)"
proof -
  have a: "aceptadas [Get, Put item_c, Get, Get, Get] s_dos = [item_c]"
    by (simp add: queue_put_def queue_get_def qsize_def s_dos_def CACHE_SIZE_def)
  have h: "distinct (pregunta_cache s_dos @ aceptadas [Get, Put item_c, Get, Get, Get] s_dos)"
    unfolding a by (simp add: s_dos_def item_a_def item_b_def item_c_def)
  have e: "entregadas [Get, Put item_c, Get, Get, Get] s_dos = [item_a, item_b, item_c]"
    by (simp add: queue_put_def queue_get_def qsize_def s_dos_def CACHE_SIZE_def)
  have q: "qsize s_dos = 2"
    by (simp add: qsize_def s_dos_def)
  have c: "cuenta_get [Get, Put item_c, Get] = qsize s_dos"
    by (simp add: cuenta_get_def q)
  from C2_exactly_once [where s = s_dos and ops = "[Get, Put item_c, Get, Get, Get]"
      and L = loads_sin_correcta and api = api_caida] h
  have d: "distinct (entregadas [Get, Put item_c, Get, Get, Get] s_dos)"
    and o: "obtener_varias (qsize s_dos) loads_sin_correcta api_caida s_dos
       = (map Returns (pregunta_cache s_dos), s_dos\<lparr>pregunta_cache := []\<rparr>)"
    by blast+
  from C2_exactly_once [where s = s_dos and ops = "[Get, Put item_c, Get]"] c
  have "entregadas [Get, Put item_c, Get] s_dos = pregunta_cache s_dos"
    by blast
  then have i: "entregadas [Get, Put item_c, Get] s_dos = [item_a, item_b]"
    by (simp add: s_dos_def)
  from o have "obtener_varias 2 loads_sin_correcta api_caida s_dos
       = ([Returns item_a, Returns item_b], \<lparr>pregunta_cache = [], llamadas = 5, reloj = 0\<rparr>)"
    unfolding q by (simp add: s_dos_def)
  with h e d c i show ?thesis by blast
qed

text \<open>
  C3 (timeout fallback). A call of \<^verbatim>\<open>obtener_pregunta_cache\<close> on an empty cache into which
  nothing is put during the wait spends the 10 seconds of \<^verbatim>\<open>get(timeout=10)\<close>, then calls
  \<^verbatim>\<open>generar_pregunta\<close> once, on the calling thread, and ends as that call ends: with the
  exception of the remote call when it raises, with the returned dictionary otherwise. The
  cache is still empty afterwards: the fallback result is not put into it.
\<close>

theorem C3_timeout_fallback:
  assumes "qsize s = 0"
  shows "obtener_pregunta_cache L api s = generar_pregunta L api (s\<lparr>reloj := reloj s + 10\<rparr>)
       \<and> fst (obtener_pregunta_cache L api s) =
           (case api (llamadas s) of
              ApiRaises m \<Rightarrow> Raises (ErrorAPI m)
            | ApiResponse t \<Rightarrow> Returns (procesar_respuesta L t))
       \<and> reloj (snd (obtener_pregunta_cache L api s)) = reloj s + 10
       \<and> llamadas (snd (obtener_pregunta_cache L api s)) = llamadas s + 1
       \<and> pregunta_cache (snd (obtener_pregunta_cache L api s)) = []"
proof -
  from assms have q: "pregunta_cache s = []"
    by (simp add: qsize_def)
  have e: "obtener_pregunta_cache L api s = generar_pregunta L api (s\<lparr>reloj := reloj s + 10\<rparr>)"
    using q by (rule obtener_vacio)
  show ?thesis
    unfolding e using q by (simp add: generar_pregunta_estado generar_pregunta_res)
qed

theorem C3_timeout_fallback_witness:
  "qsize inicial = 0
   \<and> fst (obtener_pregunta_cache loads_sin_correcta (api_texto texto_sin_correcta) inicial)
       = Returns pregunta_sin_correcta
   \<and> fst (obtener_pregunta_cache loads_sin_correcta api_caida inicial)
       = Raises (ErrorAPI ''503 UNAVAILABLE'')
   \<and> reloj (snd (obtener_pregunta_cache loads_sin_correcta api_caida inicial)) = 10
   \<and> llamadas (snd (obtener_pregunta_cache loads_sin_correcta api_caida inicial)) = 1
   \<and> pregunta_cache (snd (obtener_pregunta_cache loads_sin_correcta api_caida inicial)) = []"
proof -
  have h: "qsize inicial = 0"
    by (simp add: qsize_def inicial_def)
  note t1 = C3_timeout_fallback [OF h, where L = loads_sin_correcta
      and api = "api_texto texto_sin_correcta"]
  from t1 [THEN conjunct2, THEN conjunct1]
  have a: "fst (obtener_pregunta_cache loads_sin_correcta (api_texto texto_sin_correcta) inicial)
       = Returns pregunta_sin_correcta"
    by (simp add: api_texto_def procesar_sin_correcta)
  note t2 = C3_timeout_fallback [OF h, where L = loads_sin_correcta and api = api_caida]
  from t2 [THEN conjunct2]
  have b: "fst (obtener_pregunta_cache loads_sin_correcta api_caida inicial)
       = Raises (ErrorAPI ''503 UNAVAILABLE'')
   \<and> reloj (snd (obtener_pregunta_cache loads_sin_correcta api_caida inicial)) = 10
   \<and> llamadas (snd (obtener_pregunta_cache loads_sin_correcta api_caida inicial)) = 1
   \<and> pregunta_cache (snd (obtener_pregunta_cache loads_sin_correcta api_caida inicial)) = []"
    by (simp add: api_caida_def inicial_def)
  from h a b show ?thesis by blast
qed

text \<open>
  C4 (immediate path). A call of \<^verbatim>\<open>obtener_pregunta_cache\<close> made while the cache holds at
  least one item returns the oldest cached item and removes it; the generator is not
  invoked (the call counter keeps its value) and no time is spent waiting.
\<close>

theorem C4_immediate_path:
  assumes "0 < qsize s"
  shows "obtener_pregunta_cache json_loads api s =
           (Returns (hd (pregunta_cache s)), s\<lparr>pregunta_cache := tl (pregunta_cache s)\<rparr>)
         \<and> llamadas (snd (obtener_pregunta_cache json_loads api s)) = llamadas s
         \<and> reloj (snd (obtener_pregunta_cache json_loads api s)) = reloj s"
proof -
  from assms obtain x xs where q: "pregunta_cache s = x # xs"
    by (cases "pregunta_cache s") (simp_all add: qsize_def)
  then show ?thesis
    by (simp add: obtener_pregunta_cache_def queue_get_def)
qed

theorem C4_immediate_path_witness:
  "0 < qsize s_uno
   \<and> fst (obtener_pregunta_cache loads_sin_correcta api_caida s_uno) = Returns item_a
   \<and> llamadas (snd (obtener_pregunta_cache loads_sin_correcta api_caida s_uno)) = 0"
proof -
  have h: "0 < qsize s_uno"
    by (simp add: qsize_def s_uno_def)
  show ?thesis
    using h C4_immediate_path [OF h, where json_loads = loads_sin_correcta and api = api_caida]
    by (simp add: s_uno_def)
qed

text \<open>
  C5 (validation gate), as claimed: the check made before caching accepts a raw result if
  and only if it decodes into a structurally complete item (non-empty question, non-empty
  code, non-empty answer list, correct answer among the answers), so that a result without
  the correct-answer field is rejected and never cached. This fails: the response text
  \<^verbatim>\<open>{"Pregunta": "q", "Codigo": "c", "Respuestas": ["a", "b"]}\<close> has no correct-answer
  field. Line 77 accepts the dictionary built from it, the specification's predicate does
  not, and one pass of the worker on the empty cache puts it into the cache, with
  \<^verbatim>\<open>respuesta_correcta = None\<close>.
\<close>

theorem C5_counterexample:
  "es_valida (procesar_respuesta loads_sin_correcta (Some texto_sin_correcta))
   \<and> \<not> spec_IsValid (procesar_respuesta loads_sin_correcta (Some texto_sin_correcta))
   \<and> dict_get (procesar_respuesta loads_sin_correcta (Some texto_sin_correcta))
        ''respuesta_correcta'' = JNull
   \<and> pregunta_cache (snd (precargar_iter loads_sin_correcta
        (\<lambda>k. ApiResponse (Some texto_sin_correcta)) inicial)) = [pregunta_sin_correcta]"
proof -
  have "es_valida pregunta_sin_correcta"
    by (simp add: es_valida_def dict_has_def pregunta_sin_correcta_def)
  moreover have "\<not> spec_IsValid pregunta_sin_correcta"
    by (simp add: spec_IsValid_def dict_get_def pregunta_sin_correcta_def)
  moreover have "dict_get pregunta_sin_correcta ''respuesta_correcta'' = JNull"
    by (simp add: dict_get_def pregunta_sin_correcta_def)
  moreover have "pregunta_cache (snd (precargar_iter loads_sin_correcta
        (\<lambda>k. ApiResponse (Some texto_sin_correcta)) inicial)) = [pregunta_sin_correcta]"
    using \<open>es_valida pregunta_sin_correcta\<close>
    by (simp add: precargar_iter_def precargar_try_def generar_pregunta_def Let_def
        procesar_sin_correcta queue_put_def qsize_def inicial_def CACHE_MIN_def CACHE_SIZE_def)
  ultimately show ?thesis
    by (simp add: procesar_sin_correcta)
qed

text \<open>
  C5, as the code has it. The check made before caching (line 77: the keys
  \<^verbatim>\<open>'pregunta'\<close> and \<^verbatim>\<open>'codigo'\<close> are present) accepts the result of \<^verbatim>\<open>generar_pregunta\<close> if
  and only if the response has a text which, once cleaned, \<^verbatim>\<open>json.loads\<close> decodes to a JSON
  object; the values of the fields are not inspected. A pass of the worker below the
  watermark appends the result to the cache exactly when the check accepts it.
\<close>

theorem C5_validation_is_key_presence:
  "(es_valida (procesar_respuesta L t) \<longleftrightarrow>
      (\<exists>cuerpo kv. t = Some cuerpo \<and> L (limpiar cuerpo) = Inr (JObj kv)))
   \<and> (qsize s < CACHE_MIN \<and> api (llamadas s) = ApiResponse t \<longrightarrow>
        pregunta_cache (snd (precargar_iter L api s)) =
          (if es_valida (procesar_respuesta L t)
           then pregunta_cache s @ [procesar_respuesta L t]
           else pregunta_cache s))"
  using procesar_respuesta_valida [of L t] try_body_Inr [of L t]
    precargar_iter_respuesta [of s api t L]
  by simp

theorem C5_validation_is_key_presence_witness:
  "qsize inicial < CACHE_MIN
   \<and> \<not> es_valida (procesar_respuesta loads_sin_correcta (Some ''no json''))
   \<and> pregunta_cache (snd (precargar_iter loads_sin_correcta (api_texto ''no json'') inicial)) = []
   \<and> pregunta_cache (snd (precargar_iter loads_sin_correcta (api_texto texto_sin_correcta) s_uno))
       = [item_a, pregunta_sin_correcta]"
proof -
  have h: "qsize inicial < CACHE_MIN" and h': "qsize s_uno < CACHE_MIN"
    by (simp_all add: qsize_def inicial_def s_uno_def CACHE_MIN_def)
  have n: "\<not> es_valida (procesar_respuesta loads_sin_correcta (Some ''no json''))"
    by (simp add: procesar_respuesta_valida try_body_no_json)
  from C5_validation_is_key_presence [where L = loads_sin_correcta and t = "Some ''no json''"
      and s = inicial and api = "api_texto ''no json''", THEN conjunct2] h n
  have a: "pregunta_cache (snd (precargar_iter loads_sin_correcta (api_texto ''no json'') inicial)) = []"
    by (simp add: api_texto_def inicial_def)
  from C5_validation_is_key_presence [where L = loads_sin_correcta
      and t = "Some texto_sin_correcta" and s = s_uno
      and api = "api_texto texto_sin_correcta", THEN conjunct2] h' es_valida_sin_correcta
  have b: "pregunta_cache (snd (precargar_iter loads_sin_correcta (api_texto texto_sin_correcta) s_uno))
       = [item_a, pregunta_sin_correcta]"
    by (simp add: api_texto_def procesar_sin_correcta s_uno_def)
  from h n a b show ?thesis by blast
qed

text \<open>
  C6 (enqueue), as claimed: the enqueue operation of the worker inserts the item if and only
  if the size is below the capacity, reports by a boolean whether it did, and never blocks
  the caller, a full cache included. This fails on the result: the worker enqueues with
  \<^verbatim>\<open>pregunta_cache.put(pregunta)\<close>. After its first two statements on the response
  \<^verbatim>\<open>{"Pregunta": "q", "Codigo": "c", "Respuestas": ["a", "b"]}\<close> the worker is at that
  \<^verbatim>\<open>put\<close> with the empty cache; the call inserts the item and returns \<^verbatim>\<open>None\<close>, not
  \<^verbatim>\<open>True\<close>.
\<close>

theorem C6_counterexample:
  "correr loads_sin_correcta (api_texto texto_sin_correcta) [Trabajador, Trabajador] arranque
     = (EnPut pregunta_sin_correcta, \<lparr>pregunta_cache = [], llamadas = 1, reloj = 0\<rparr>)
   \<and> queue_put pregunta_sin_correcta \<lparr>pregunta_cache = [], llamadas = 1, reloj = 0\<rparr>
     = (Returns JNull, \<lparr>pregunta_cache = [pregunta_sin_correcta], llamadas = 1, reloj = 0\<rparr>)
   \<and> fst (queue_put pregunta_sin_correcta \<lparr>pregunta_cache = [], llamadas = 1, reloj = 0\<rparr>)
     \<noteq> Returns (JBool True)"
  by (simp add: correr_def arranque_def inicial_def qsize_def CACHE_MIN_def CACHE_SIZE_def
      generar_pregunta_def Let_def api_texto_def procesar_sin_correcta es_valida_sin_correcta
      queue_put_def)

text \<open>
  C6, as the code has it. The enqueue operation of the worker is a \<^verbatim>\<open>put\<close>, which returns
  \<^verbatim>\<open>None\<close>. In every run of the worker interleaved with any calls of
  \<^verbatim>\<open>obtener_pregunta_cache\<close>, from start-up, the cache never holds more than 10 items, the
  low watermark, which is below the capacity of 40. So whenever the worker is at its
  \<^verbatim>\<open>put\<close> the size is strictly below the capacity: the \<^verbatim>\<open>put\<close> appends the item and
  returns, the worker's next statement is the test of line 73 again, and the caller is
  never blocked. A full cache is never presented to it.
\<close>

theorem C6_worker_put_inserts:
  "qsize (snd (correr L api es arranque)) \<le> CACHE_MIN
   \<and> CACHE_MIN < CACHE_SIZE
   \<and> (fst (correr L api es arranque) = EnPut pregunta \<longrightarrow>
        qsize (snd (correr L api es arranque)) < CACHE_SIZE
        \<and> queue_put pregunta (snd (correr L api es arranque))
            = (Returns JNull,
               (snd (correr L api es arranque))
                 \<lparr>pregunta_cache := pregunta_cache (snd (correr L api es arranque)) @ [pregunta]\<rparr>)
        \<and> fst (correr L api (es @ [Trabajador]) arranque) = EnCheck
        \<and> pregunta_cache (snd (correr L api (es @ [Trabajador]) arranque))
            = pregunta_cache (snd (correr L api es arranque)) @ [pregunta])"
proof -
  obtain pc s where c: "correr L api es arranque = (pc, s)"
    by (cases "correr L api es arranque")
  have b: "bajo_umbral (pc, s)"
    using bajo_umbral_correr [OF bajo_umbral_arranque, of L api es] c by simp
  then have 1: "qsize s \<le> CACHE_MIN"
    by (rule bajo_umbral_qsize)
  have 2: "CACHE_MIN < CACHE_SIZE"
    by (simp add: CACHE_MIN_def CACHE_SIZE_def)
  have n: "correr L api (es @ [Trabajador]) arranque = paso_trabajador L api (pc, s)"
    using c by (simp add: correr_def)
  have 3: "pc = EnPut pregunta \<longrightarrow>
        qsize s < CACHE_SIZE
        \<and> queue_put pregunta s
            = (Returns JNull, s\<lparr>pregunta_cache := pregunta_cache s @ [pregunta]\<rparr>)
        \<and> fst (paso_trabajador L api (pc, s)) = EnCheck
        \<and> pregunta_cache (snd (paso_trabajador L api (pc, s))) = pregunta_cache s @ [pregunta]"
  proof
    assume p: "pc = EnPut pregunta"
    with b have "qsize s < CACHE_MIN" by simp
    with 2 have l: "qsize s < CACHE_SIZE" by simp
    then have q: "queue_put pregunta s
            = (Returns JNull, s\<lparr>pregunta_cache := pregunta_cache s @ [pregunta]\<rparr>)"
      by (simp add: queue_put_def)
    with l p show "qsize s < CACHE_SIZE
        \<and> queue_put pregunta s
            = (Returns JNull, s\<lparr>pregunta_cache := pregunta_cache s @ [pregunta]\<rparr>)
        \<and> fst (paso_trabajador L api (pc, s)) = EnCheck
        \<and> pregunta_cache (snd (paso_trabajador L api (pc, s))) = pregunta_cache s @ [pregunta]"
      by simp
  qed
  from 1 2 3 show ?thesis
    unfolding n c by simp
qed

theorem C6_worker_put_inserts_witness:
  "fst (correr loads_sin_correcta (api_texto texto_sin_correcta) [Trabajador, Consumidor, Trabajador]
          arranque) = EnPut pregunta_sin_correcta
   \<and> fst (correr loads_sin_correcta (api_texto texto_sin_correcta)
          ([Trabajador, Consumidor, Trabajador] @ [Trabajador]) arranque) = EnCheck
   \<and> pregunta_cache (snd (correr loads_sin_correcta (api_texto texto_sin_correcta)
          ([Trabajador, Consumidor, Trabajador] @ [Trabajador]) arranque)) = [pregunta_sin_correcta]"
proof -
  have h: "correr loads_sin_correcta (api_texto texto_sin_correcta)
             [Trabajador, Consumidor, Trabajador] arranque
           = (EnPut pregunta_sin_correcta, \<lparr>pregunta_cache = [], llamadas = 2, reloj = 10\<rparr>)"
    by (simp add: correr_def arranque_def inicial_def qsize_def CACHE_MIN_def
        obtener_pregunta_cache_def queue_get_def
        generar_pregunta_def Let_def api_texto_def procesar_sin_correcta es_valida_sin_correcta)
  then have p: "fst (correr loads_sin_correcta (api_texto texto_sin_correcta)
          [Trabajador, Consumidor, Trabajador] arranque) = EnPut pregunta_sin_correcta"
    by simp
  from C6_worker_put_inserts [where L = loads_sin_correcta
      and api = "api_texto texto_sin_correcta" and es = "[Trabajador, Consumidor, Trabajador]"
      and pregunta = pregunta_sin_correcta] p
  have "fst (correr loads_sin_correcta (api_texto texto_sin_correcta)
          ([Trabajador, Consumidor, Trabajador] @ [Trabajador]) arranque) = EnCheck
   \<and> pregunta_cache (snd (correr loads_sin_correcta (api_texto texto_sin_correcta)
          ([Trabajador, Consumidor, Trabajador] @ [Trabajador]) arranque))
       = pregunta_cache (snd (correr loads_sin_correcta (api_texto texto_sin_correcta)
          [Trabajador, Consumidor, Trabajador] arranque)) @ [pregunta_sin_correcta]"
    by blast
  with p show ?thesis
    unfolding h by simp
qed

text \<open>
  C7 (failures in the worker). No pass of the worker's loop raises or blocks, whatever the
  generator does, so the loop goes on. While the cache is below the watermark and the
  generator keeps failing (the remote call raises, or the result does not pass line 77),
  \<open>n\<close> passes make \<open>n\<close> generator calls and change nothing else: the cache is as it was and
  no time is spent sleeping between the retries.
\<close>

theorem C7_worker_swallows_failures:
  "fst (precargar_preguntas n L api s) = Returns ()
   \<and> (qsize s < CACHE_MIN \<and> (\<forall>k<n. falla L (api (llamadas s + k))) \<longrightarrow>
        precargar_preguntas n L api s = (Returns (), s\<lparr>llamadas := llamadas s + n\<rparr>))"
  using precargar_preguntas_retorna [of n L api s] precargar_preguntas_falla [of s n L api]
  by blast

theorem C7_worker_swallows_failures_witness:
  "qsize inicial < CACHE_MIN
   \<and> precargar_preguntas 3 loads_sin_correcta api_caida inicial
       = (Returns (), \<lparr>pregunta_cache = [], llamadas = 3, reloj = 0\<rparr>)"
proof -
  have h: "qsize inicial < CACHE_MIN"
    by (simp add: qsize_def inicial_def CACHE_MIN_def)
  have f: "\<forall>k<3. falla loads_sin_correcta (api_caida (llamadas inicial + k))"
    by (simp add: falla_api_caida)
  from C7_worker_swallows_failures [where n = 3 and L = loads_sin_correcta
      and api = api_caida and s = inicial] h f
  have "precargar_preguntas 3 loads_sin_correcta api_caida inicial
          = (Returns (), inicial\<lparr>llamadas := llamadas inicial + 3\<rparr>)"
    by blast
  with h show ?thesis
    by (simp add: inicial_def)
qed

text \<open>
  C8 (failures on the fallback path), as claimed: on the fallback path a transport failure
  and a validation or decoding failure both reach the caller as an error outcome, the
  second one distinct from the first. This fails for a validation failure: on the empty
  cache, the response \<^verbatim>\<open>{"Pregunta": "q", "Codigo": "c", "Respuestas": ["a", "b"]}\<close>, which
  has no correct answer and is not valid for the specification, comes back from
  \<^verbatim>\<open>obtener_pregunta_cache\<close> as an ordinary item, with no \<^verbatim>\<open>error\<close> key.
\<close>

theorem C8_counterexample:
  "qsize inicial = 0
   \<and> fst (obtener_pregunta_cache loads_sin_correcta (api_texto texto_sin_correcta) inicial)
       = Returns pregunta_sin_correcta
   \<and> \<not> spec_IsValid pregunta_sin_correcta
   \<and> \<not> dict_has pregunta_sin_correcta ''error''"
proof -
  have q: "pregunta_cache inicial = []"
    by (simp add: inicial_def)
  have "fst (obtener_pregunta_cache loads_sin_correcta (api_texto texto_sin_correcta) inicial)
       = Returns pregunta_sin_correcta"
    by (simp add: obtener_vacio [OF q] generar_pregunta_res api_texto_def procesar_sin_correcta)
  moreover have "\<not> spec_IsValid pregunta_sin_correcta"
    by (simp add: spec_IsValid_def dict_get_def pregunta_sin_correcta_def)
  moreover have "\<not> dict_has pregunta_sin_correcta ''error''"
    by (simp add: dict_has_def pregunta_sin_correcta_def)
  ultimately show ?thesis
    using q by (simp add: qsize_def)
qed

text \<open>
  C8, as the code has it. On an empty cache, when the remote call raises, the exception
  reaches the caller of \<^verbatim>\<open>obtener_pregunta_cache\<close>; when the response cannot be decoded, the
  caller gets the error dictionary, with the keys \<^verbatim>\<open>error\<close>, \<^verbatim>\<open>detalle\<close> and \<^verbatim>\<open>texto\<close>:
  a returned value, distinct from the raise. A response cannot be decoded exactly when it
  has no text or its cleaned text is not decoded to a JSON object by \<^verbatim>\<open>json.loads\<close>. Every
  other response is returned as an ordinary item, without an \<^verbatim>\<open>error\<close> key, whatever its
  fields hold: nothing is validated on this path.
\<close>

theorem C8_fallback_outcomes:
  assumes "qsize s = 0"
  shows "(api (llamadas s) = ApiRaises m \<longrightarrow>
            fst (obtener_pregunta_cache L api s) = Raises (ErrorAPI m))
       \<and> (api (llamadas s) = ApiResponse t \<and> try_body L t = Inl e \<longrightarrow>
            fst (obtener_pregunta_cache L api s) =
              Returns [(''error'', JStr ''No se pudo extraer el JSON''),
                       (''detalle'', JStr (str_exn e)),
                       (''texto'', (case t of None \<Rightarrow> JNull | Some x \<Rightarrow> JStr x))])
       \<and> (api (llamadas s) = ApiResponse t \<and> try_body L t = Inr p \<longrightarrow>
            fst (obtener_pregunta_cache L api s) = Returns p \<and> \<not> dict_has p ''error'')
       \<and> ((\<exists>e'. try_body L t = Inl e') \<longleftrightarrow>
            \<not> (\<exists>cuerpo kv. t = Some cuerpo \<and> L (limpiar cuerpo) = Inr (JObj kv)))"
proof -
  from assms have q: "pregunta_cache s = []"
    by (simp add: qsize_def)
  have r: "fst (obtener_pregunta_cache L api s) =
           (case api (llamadas s) of
              ApiRaises m \<Rightarrow> Raises (ErrorAPI m)
            | ApiResponse t \<Rightarrow> Returns (procesar_respuesta L t))"
    by (simp add: obtener_vacio [OF q] generar_pregunta_res)
  have a: "api (llamadas s) = ApiRaises m \<longrightarrow>
            fst (obtener_pregunta_cache L api s) = Raises (ErrorAPI m)"
    by (simp add: r)
  have b: "api (llamadas s) = ApiResponse t \<and> try_body L t = Inl e \<longrightarrow>
            fst (obtener_pregunta_cache L api s) =
              Returns [(''error'', JStr ''No se pudo extraer el JSON''),
                       (''detalle'', JStr (str_exn e)),
                       (''texto'', (case t of None \<Rightarrow> JNull | Some x \<Rightarrow> JStr x))]"
    by (simp add: r procesar_respuesta_def)
  have c: "api (llamadas s) = ApiResponse t \<and> try_body L t = Inr p \<longrightarrow>
            fst (obtener_pregunta_cache L api s) = Returns p \<and> \<not> dict_has p ''error''"
    using try_body_sin_error [of L t p] by (simp add: r procesar_respuesta_def)
  have d: "(\<exists>e'. try_body L t = Inl e') \<longleftrightarrow>
            \<not> (\<exists>cuerpo kv. t = Some cuerpo \<and> L (limpiar cuerpo) = Inr (JObj kv))"
    unfolding try_body_Inr [symmetric] by (cases "try_body L t") simp_all
  from a b c d show ?thesis by blast
qed

theorem C8_fallback_outcomes_witness:
  "qsize inicial = 0
   \<and> fst (obtener_pregunta_cache loads_sin_correcta api_caida inicial)
       = Raises (ErrorAPI ''503 UNAVAILABLE'')
   \<and> fst (obtener_pregunta_cache loads_sin_correcta (api_texto ''no json'') inicial)
       = Returns [(''error'', JStr ''No se pudo extraer el JSON''),
                  (''detalle'', JStr ''Expecting value: line 1 column 1 (char 0)''),
                  (''texto'', JStr ''no json'')]
   \<and> fst (obtener_pregunta_cache loads_sin_correcta (api_texto texto_sin_correcta) inicial)
       = Returns pregunta_sin_correcta"
proof -
  have h: "qsize inicial = 0"
    by (simp add: qsize_def inicial_def)
  from C8_fallback_outcomes [OF h, where api = api_caida
      and m = "''503 UNAVAILABLE''" and L = loads_sin_correcta, THEN conjunct1]
  have a: "fst (obtener_pregunta_cache loads_sin_correcta api_caida inicial)
       = Raises (ErrorAPI ''503 UNAVAILABLE'')"
    by (simp add: api_caida_def inicial_def)
  from C8_fallback_outcomes [OF h, where api = "api_texto ''no json''"
      and t = "Some ''no json''" and L = loads_sin_correcta
      and e = "JSONDecodeError ''Expecting value: line 1 column 1 (char 0)''",
      THEN conjunct2, THEN conjunct1] try_body_no_json
  have b: "fst (obtener_pregunta_cache loads_sin_correcta (api_texto ''no json'') inicial)
       = Returns [(''error'', JStr ''No se pudo extraer el JSON''),
                  (''detalle'', JStr ''Expecting value: line 1 column 1 (char 0)''),
                  (''texto'', JStr ''no json'')]"
    by (simp add: api_texto_def)
  from C8_fallback_outcomes [OF h, where api = "api_texto texto_sin_correcta"
      and t = "Some texto_sin_correcta" and L = loads_sin_correcta
      and p = pregunta_sin_correcta,
      THEN conjunct2, THEN conjunct2, THEN conjunct1] try_body_sin_correcta
  have c: "fst (obtener_pregunta_cache loads_sin_correcta (api_texto texto_sin_correcta) inicial)
       = Returns pregunta_sin_correcta"
    by (simp add: api_texto_def)
  from h a b c show ?thesis by blast
qed

text \<open>
  C9 (watermark gate). The watermark is 10. A pass of the worker that observes a size of
  10 or more only sleeps for 2 seconds; a pass changes the generator's call counter only
  when the size it observes is below 10, and then it makes one call and does not sleep.
\<close>

theorem C9_watermark_gate:
  "CACHE_MIN = 10
   \<and> (CACHE_MIN \<le> qsize s \<longrightarrow>
        precargar_iter L api s = (Returns (), s\<lparr>reloj := reloj s + 2\<rparr>))
   \<and> (llamadas (snd (precargar_iter L api s)) \<noteq> llamadas s \<longrightarrow> qsize s < CACHE_MIN)
   \<and> (qsize s < CACHE_MIN \<longrightarrow>
        llamadas (snd (precargar_iter L api s)) = llamadas s + 1
        \<and> reloj (snd (precargar_iter L api s)) = reloj s)"
proof -
  have a: "CACHE_MIN \<le> qsize s \<longrightarrow>
        precargar_iter L api s = (Returns (), s\<lparr>reloj := reloj s + 2\<rparr>)"
    by (simp add: precargar_iter_alto)
  have b: "llamadas (snd (precargar_iter L api s)) \<noteq> llamadas s \<longrightarrow> qsize s < CACHE_MIN"
  proof (cases "qsize s < CACHE_MIN")
    case True
    then show ?thesis by simp
  next
    case False
    then have "CACHE_MIN \<le> qsize s" by simp
    then show ?thesis by (simp add: precargar_iter_alto)
  qed
  have c: "qsize s < CACHE_MIN \<longrightarrow>
        llamadas (snd (precargar_iter L api s)) = llamadas s + 1
        \<and> reloj (snd (precargar_iter L api s)) = reloj s"
    using precargar_iter_bajo [of s L api] by blast
  from a b c show ?thesis
    by (simp add: CACHE_MIN_def)
qed

theorem C9_watermark_gate_witness:
  "CACHE_MIN \<le> qsize s_diez
   \<and> precargar_iter loads_sin_correcta api_caida s_diez
       = (Returns (), \<lparr>pregunta_cache = replicate 10 item_a, llamadas = 0, reloj = 2\<rparr>)
   \<and> qsize s_uno < CACHE_MIN
   \<and> llamadas (snd (precargar_iter loads_sin_correcta api_caida s_uno)) = 1
   \<and> reloj (snd (precargar_iter loads_sin_correcta api_caida s_uno)) = 0"
proof -
  have h: "CACHE_MIN \<le> qsize s_diez"
    by (simp add: qsize_def s_diez_def CACHE_MIN_def)
  have h': "qsize s_uno < CACHE_MIN"
    by (simp add: qsize_def s_uno_def CACHE_MIN_def)
  from C9_watermark_gate [where s = s_diez and L = loads_sin_correcta and api = api_caida] h
  have "precargar_iter loads_sin_correcta api_caida s_diez
       = (Returns (), s_diez\<lparr>reloj := reloj s_diez + 2\<rparr>)"
    by blast
  then have a: "precargar_iter loads_sin_correcta api_caida s_diez
       = (Returns (), \<lparr>pregunta_cache = replicate 10 item_a, llamadas = 0, reloj = 2\<rparr>)"
    by (simp add: s_diez_def)
  from C9_watermark_gate [where s = s_uno and L = loads_sin_correcta and api = api_caida] h'
  have "llamadas (snd (precargar_iter loads_sin_correcta api_caida s_uno)) = llamadas s_uno + 1
   \<and> reloj (snd (precargar_iter loads_sin_correcta api_caida s_uno)) = reloj s_uno"
    by blast
  then have b: "llamadas (snd (precargar_iter loads_sin_correcta api_caida s_uno)) = 1
   \<and> reloj (snd (precargar_iter loads_sin_correcta api_caida s_uno)) = 0"
    by (simp add: s_uno_def)
  from h h' a b show ?thesis by blast
qed

text \<open>
  C10 (decoding of \<^verbatim>\<open>"Respuestas"\<close>). For a response whose cleaned text decodes to a JSON
  object: when the field \<^verbatim>\<open>"Respuestas"\<close> is a string, the answers are the parts of that
  string between commas (joined again with commas they give the string back, and none holds
  a comma), each stripped of surrounding whitespace; when the field is neither
  a string nor a list (or is absent), the answer list is empty, the dictionary still
  passes line 77, and a pass of the worker below the watermark appends it to the cache.
\<close>

theorem C10_respuestas_decoding:
  assumes "L (limpiar t) = Inr (JObj kv)"
  shows "(map_of kv ''Respuestas'' = Some (JStr r) \<longrightarrow>
            dict_get (procesar_respuesta L (Some t)) ''respuestas'' =
              JList (map (\<lambda>p. JStr (py_strip p)) (py_split CHR '','' r))
            \<and> py_join CHR '','' (py_split CHR '','' r) = r
            \<and> (\<forall>p\<in>set (py_split CHR '','' r). CHR '','' \<notin> set p))
       \<and> ((\<forall>r. map_of kv ''Respuestas'' \<noteq> Some (JStr r))
           \<and> (\<forall>rs. map_of kv ''Respuestas'' \<noteq> Some (JList rs)) \<longrightarrow>
            dict_get (procesar_respuesta L (Some t)) ''respuestas'' = JList []
            \<and> es_valida (procesar_respuesta L (Some t))
            \<and> (qsize s < CACHE_MIN \<and> api (llamadas s) = ApiResponse (Some t) \<longrightarrow>
                 pregunta_cache (snd (precargar_iter L api s)) =
                   pregunta_cache s @ [procesar_respuesta L (Some t)]))"
proof -
  have v: "es_valida (procesar_respuesta L (Some t))"
    using assms by (simp add: procesar_respuesta_valida try_body_Inr)
  have a: "map_of kv ''Respuestas'' = Some (JStr r) \<longrightarrow>
            dict_get (procesar_respuesta L (Some t)) ''respuestas'' =
              JList (map (\<lambda>p. JStr (py_strip p)) (py_split CHR '','' r))"
    unfolding armar_respuestas using assms by (simp add: dict_get_def)
  have j: "py_join CHR '','' (py_split CHR '','' r) = r"
    by (rule py_join_split)
  have n: "\<forall>p\<in>set (py_split CHR '','' r). CHR '','' \<notin> set p"
    by (simp add: py_split_sin_separador)
  have b: "(\<forall>r. map_of kv ''Respuestas'' \<noteq> Some (JStr r))
           \<and> (\<forall>rs. map_of kv ''Respuestas'' \<noteq> Some (JList rs)) \<longrightarrow>
            dict_get (procesar_respuesta L (Some t)) ''respuestas'' = JList []"
  proof (intro impI, elim conjE)
    assume ns: "\<forall>r. map_of kv ''Respuestas'' \<noteq> Some (JStr r)"
      and nl: "\<forall>rs. map_of kv ''Respuestas'' \<noteq> Some (JList rs)"
    have "normalizar_respuestas (dict_get kv ''Respuestas'') = JList []"
    proof (cases "map_of kv ''Respuestas''")
      case None
      then show ?thesis by (simp add: dict_get_def)
    next
      case (Some j)
      with ns nl show ?thesis
        by (cases j) (simp_all add: dict_get_def)
    qed
    with assms show "dict_get (procesar_respuesta L (Some t)) ''respuestas'' = JList []"
      by (simp add: armar_respuestas)
  qed
  have c: "qsize s < CACHE_MIN \<and> api (llamadas s) = ApiResponse (Some t) \<longrightarrow>
                 pregunta_cache (snd (precargar_iter L api s)) =
                   pregunta_cache s @ [procesar_respuesta L (Some t)]"
    using v precargar_iter_respuesta [of s api "Some t" L] by simp
  from a j n b c v show ?thesis by blast
qed

theorem C10_respuestas_decoding_witness:
  "dict_get (procesar_respuesta loads_respuestas (Some texto_respuestas_str)) ''respuestas''
     = JList [JStr ''1'', JStr ''2'', JStr ''3'']
   \<and> dict_get (procesar_respuesta loads_respuestas (Some texto_respuestas_num)) ''respuestas''
     = JList []
   \<and> es_valida (procesar_respuesta loads_respuestas (Some texto_respuestas_num))
   \<and> pregunta_cache (snd (precargar_iter loads_respuestas
        (\<lambda>k. ApiResponse (Some texto_respuestas_num)) inicial))
     = [procesar_respuesta loads_respuestas (Some texto_respuestas_num)]"
proof -
  have h1: "map_of kv_respuestas_str ''Respuestas'' = Some (JStr '' 1, 2 ,3'')"
    by (simp add: kv_respuestas_str_def)
  have h2: "(\<forall>r. map_of kv_respuestas_num ''Respuestas'' \<noteq> Some (JStr r))
            \<and> (\<forall>rs. map_of kv_respuestas_num ''Respuestas'' \<noteq> Some (JList rs))"
    by (simp add: kv_respuestas_num_def)
  have h3: "qsize inicial < CACHE_MIN
            \<and> (\<lambda>k. ApiResponse (Some texto_respuestas_num)) (llamadas inicial)
                = ApiResponse (Some texto_respuestas_num)"
    by (simp add: qsize_def inicial_def CACHE_MIN_def)
  have sp: "map (\<lambda>p. JStr (py_strip p)) (py_split CHR '','' '' 1, 2 ,3'')
            = [JStr ''1'', JStr ''2'', JStr ''3'']"
    by (simp add: py_strip_def py_isspace_def)
  from C10_respuestas_decoding [where L = loads_respuestas and t = texto_respuestas_str
      and kv = kv_respuestas_str and r = "'' 1, 2 ,3''"] loads_respuestas_str h1 sp
  have a: "dict_get (procesar_respuesta loads_respuestas (Some texto_respuestas_str))
             ''respuestas'' = JList [JStr ''1'', JStr ''2'', JStr ''3'']"
    by simp
  from C10_respuestas_decoding [where L = loads_respuestas and t = texto_respuestas_num
      and kv = kv_respuestas_num and s = inicial
      and api = "\<lambda>k. ApiResponse (Some texto_respuestas_num)"] loads_respuestas_num h2 h3
  have b: "dict_get (procesar_respuesta loads_respuestas (Some texto_respuestas_num))
             ''respuestas'' = JList []
           \<and> es_valida (procesar_respuesta loads_respuestas (Some texto_respuestas_num))
           \<and> pregunta_cache (snd (precargar_iter loads_respuestas
                (\<lambda>k. ApiResponse (Some texto_respuestas_num)) inicial))
             = pregunta_cache inicial @ [procesar_respuesta loads_respuestas (Some texto_respuestas_num)]"
    by blast
  from a b show ?thesis
    by (simp add: inicial_def)
qed

end
